theory Spec2Isabelle
  imports
    Complex_Main
    "HOL-Library.Char_ord"
    "HOL-Library.List_Lexorder"
    "HOL-Library.Product_Lexorder"
begin

section \<open>Data model of \<open>run.py\<close>\<close>

text \<open>
  The planning script \<open>src/run.py\<close> works on pandas tables. A table is modelled as the
  list of its rows, in row order, and a row as a record. Calendar dates (normalised
  timestamps) are day numbers of type \<open>int\<close>, so that adding a \<open>Timedelta\<close> of \<open>n\<close> days
  is \<open>+ n\<close>. Quantities and costs are Python floats in the source; the model computes
  with exact rationals, so it describes the arithmetic the script writes down and not
  the rounding error of the individual float operations. The explicit
  \<open>round(x, 2)\<close> calls of the script are part of the model. A missing value (NaN, NA)
  of a column that the script tests with \<open>pd.notna\<close> is \<open>None\<close>.
\<close>

definition LEAD_TIME_DAYS :: int where
  "LEAD_TIME_DAYS = 3"

definition RECURRENCE_DAYS :: int where
  "RECURRENCE_DAYS = 7"

text \<open>A row of a bank (purchase ledger) file.\<close>

record txn =
  t_ingredient :: string
  t_unit :: string
  qty :: rat
  unit_cost_gbp :: rat
  merchant :: string
  txn_date :: int

text \<open>A row of the \<open>forecast\<close> table and a row of the \<open>actual\<close> usage table.\<close>

record forecast_row =
  f_date :: int
  f_ingredient :: string
  f_usage :: "rat option"

record usage_row =
  a_date :: int
  a_ingredient :: string
  a_unit :: string
  a_usage :: rat

text \<open>A row of the \<open>daily\<close> grid.\<close>

record daily_row =
  d_date :: int
  d_ingredient :: string
  forecast_usage :: "rat option"
  actual_usage :: "rat option"
  daily_usage :: rat
  delivery_qty :: rat
  planned_delivery_qty :: rat

text \<open>An element of \<open>reorder_rows\<close>.\<close>

record reorder_row =
  r_ingredient :: string
  supplier :: string
  order_date :: int
  delivery_date :: int
  order_qty :: rat
  r_unit :: string
  r_unit_cost_gbp :: rat
  estimated_cost_gbp :: rat
  stockout_date_if_no_order :: int

section \<open>Python helpers\<close>

text \<open>
  \<open>round(x, 2)\<close>: the nearest multiple of \<open>1/100\<close>, a tie going to the even multiple.
\<close>

definition round_half_even :: "rat \<Rightarrow> int" where
  "round_half_even y =
     (let f = \<lfloor>y\<rfloor>; r = y - of_int f
      in if r < 1 / 2 then f
         else if 1 / 2 < r then f + 1
         else if even f then f else f + 1)"

definition round2 :: "rat \<Rightarrow> rat" where
  "round2 x = of_int (round_half_even (x * 100)) / 100"

text \<open>\<open>d.get(k, default)\<close> on a dictionary.\<close>

definition dict_get :: "('k \<rightharpoonup> 'v) \<Rightarrow> 'k \<Rightarrow> 'v \<Rightarrow> 'v" where
  "dict_get m k dflt = (case m k of None \<Rightarrow> dflt | Some v \<Rightarrow> v)"

section \<open>The reorder planner, one ingredient\<close>

text \<open>
  The first loop of the planner body: the do-nothing replay over the rows \<open>df\<close> of one
  ingredient. It runs over every row and keeps the first date at which the running
  inventory is negative. The source's variable \<open>inv\<close> is written \<open>bal\<close> here (\<open>inv\<close> is
  the inverse of a function in HOL).
\<close>

fun find_stockout :: "rat \<Rightarrow> int option \<Rightarrow> daily_row list \<Rightarrow> int option" where
  "find_stockout bal stockout_date [] = stockout_date"
| "find_stockout bal stockout_date (r # rs) =
     (let inv' = bal + delivery_qty r - daily_usage r
      in find_stockout inv'
           (if inv' < 0 \<and> stockout_date = None then Some (d_date r) else stockout_date) rs)"

text \<open>The second loop: replay the rows dated strictly before the delivery, then \<open>break\<close>.\<close>

fun inv_at_delivery_morning :: "rat \<Rightarrow> int \<Rightarrow> daily_row list \<Rightarrow> rat" where
  "inv_at_delivery_morning bal dd [] = bal"
| "inv_at_delivery_morning bal dd (r # rs) =
     (if d_date r < dd
      then inv_at_delivery_morning (bal + delivery_qty r - daily_usage r) dd rs
      else bal)"

definition remaining_need :: "int \<Rightarrow> daily_row list \<Rightarrow> rat" where
  "remaining_need dd df = sum_list (map daily_usage (filter (\<lambda>r. dd \<le> d_date r) df))"

definition sized_order_qty :: "rat \<Rightarrow> int \<Rightarrow> daily_row list \<Rightarrow> rat" where
  "sized_order_qty start_inv dd df =
     max 0 (remaining_need dd df - max 0 (inv_at_delivery_morning start_inv dd df))"

text \<open>
  The body of the planner loop for the ingredient \<open>ing\<close>, given its rows \<open>df\<close>, its
  starting inventory, its \<open>latest_buy\<close> row if it has one, and the unit used when it has
  none. The result is \<open>None\<close> at \<open>continue\<close>; otherwise the appended row, together with
  the unrounded \<open>order_qty\<close> that is added to the grid.
\<close>

definition plan_ingredient ::
  "string \<Rightarrow> daily_row list \<Rightarrow> rat \<Rightarrow> txn option \<Rightarrow> string \<Rightarrow> (reorder_row \<times> rat) option" where
  "plan_ingredient ing df start_inv lb fallback_unit =
     (case find_stockout start_inv None df of
        None \<Rightarrow> None
      | Some stockout_date \<Rightarrow>
          (let order_date' = stockout_date - LEAD_TIME_DAYS;
               delivery_date' = order_date' + LEAD_TIME_DAYS;
               order_qty' = sized_order_qty start_inv delivery_date' df;
               unit' = (case lb of Some t \<Rightarrow> t_unit t | None \<Rightarrow> fallback_unit);
               unit_cost = (case lb of Some t \<Rightarrow> unit_cost_gbp t | None \<Rightarrow> 0);
               supplier' = (case lb of Some t \<Rightarrow> merchant t | None \<Rightarrow> ''Unknown'')
           in Some (\<lparr> r_ingredient = ing,
                      supplier = supplier',
                      order_date = order_date',
                      delivery_date = delivery_date',
                      order_qty = round2 order_qty',
                      r_unit = unit',
                      r_unit_cost_gbp = unit_cost,
                      estimated_cost_gbp = round2 (order_qty' * unit_cost),
                      stockout_date_if_no_order = stockout_date \<rparr>, order_qty')))"

section \<open>Inputs of a run\<close>

text \<open>
  The script reads three bank files, builds the \<open>actual\<close> usage table from the sales of
  the previous week and the \<open>forecast\<close> table for the horizon. The two usage tables are
  taken here as they are when the unit resolution starts (line 111 of the script).
\<close>

record inputs =
  bank_week1 :: "txn list"
  bank_week2 :: "txn list"
  bank_week3 :: "txn list"
  forecast :: "forecast_row list"
  actual :: "usage_row list"

definition all_banks :: "inputs \<Rightarrow> txn list" where
  "all_banks inp = bank_week1 inp @ bank_week2 inp @ bank_week3 inp"

text \<open>\<open>bank = bank_week3.copy()\<close>: the last week only.\<close>

definition bank :: "inputs \<Rightarrow> txn list" where
  "bank inp = bank_week3 inp"

section \<open>Units\<close>

text \<open>
  \<open>bank.groupby("ingredient")["unit"].first().to_dict()\<close>: the rows are visited in file
  order and the first unit seen for an ingredient is kept.
\<close>

definition first_unit_step :: "(string \<rightharpoonup> string) \<Rightarrow> txn \<Rightarrow> (string \<rightharpoonup> string)" where
  "first_unit_step m t =
     (case m (t_ingredient t) of
        None \<Rightarrow> m(t_ingredient t \<mapsto> t_unit t)
      | Some u \<Rightarrow> m)"

definition ingredient_units :: "txn list \<Rightarrow> (string \<rightharpoonup> string)" where
  "ingredient_units bk = foldl first_unit_step Map.empty bk"

text \<open>Python's \<open>x in s\<close> on strings: \<open>x\<close> occurs in \<open>s\<close> as a contiguous substring.\<close>

fun contains :: "string \<Rightarrow> string \<Rightarrow> bool" where
  "contains [] x = (x = [])"
| "contains (c # cs) x = (take (length x) (c # cs) = x \<or> contains cs x)"

definition unit_heuristic :: "string \<Rightarrow> string" where
  "unit_heuristic ingredient =
     (if list_ex (\<lambda>x. contains ingredient x) [''Patty'', ''Filling'']
         \<or> List.member [''Lettuce'', ''Pickles'', ''Onion'', ''Potatoes'',
                          ''Chicken Nugget'', ''Fish Fillet''] ingredient
      then ''g''
      else if List.member [''Milk'', ''Ketchup'', ''Mustard'', ''Mayonnaise''] ingredient
      then ''ml''
      else ''unit'')"

definition infer_unit :: "txn list \<Rightarrow> string \<Rightarrow> string" where
  "infer_unit bk ingredient =
     (case ingredient_units bk ingredient of
        Some u \<Rightarrow> u
      | None \<Rightarrow> unit_heuristic ingredient)"

text \<open>\<open>ingredient_units.get(ing) or infer_unit(ing)\<close>: an empty string is falsy.\<close>

definition unit_or_infer :: "txn list \<Rightarrow> string \<Rightarrow> string" where
  "unit_or_infer bk ing =
     (case ingredient_units bk ing of
        Some u \<Rightarrow> if u \<noteq> [] then u else infer_unit bk ing
      | None \<Rightarrow> infer_unit bk ing)"

section \<open>Latest buy\<close>

text \<open>
  \<open>bank.sort_values(["ingredient", "txn_date"])\<close> is a stable sort on the pair, and
  \<open>groupby("ingredient").tail(1)\<close> keeps the last row of each ingredient.
  \<open>latest_buy bk ing\<close> is the row \<open>latest_buy.loc[ing]\<close>, and \<open>None\<close> when \<open>ing\<close> is not in
  \<open>latest_buy.index\<close>.
\<close>

definition bank_sorted :: "txn list \<Rightarrow> txn list" where
  "bank_sorted bk = sort_key (\<lambda>t. (t_ingredient t, txn_date t)) bk"

definition latest_buy :: "txn list \<Rightarrow> string \<Rightarrow> txn option" where
  "latest_buy bk ing =
     (case filter (\<lambda>t. t_ingredient t = ing) (bank_sorted bk) of
        [] \<Rightarrow> None
      | t # ts \<Rightarrow> Some (last (t # ts)))"

section \<open>The daily usage grid\<close>

text \<open>
  \<open>start_date = forecast["date"].min()\<close>. On an empty forecast the minimum is \<open>NaT\<close> and
  \<open>pd.date_range\<close> raises: the run has no result.
\<close>

definition start_date :: "inputs \<Rightarrow> int option" where
  "start_date inp =
     (case map f_date (forecast inp) of
        [] \<Rightarrow> None
      | d # ds \<Rightarrow> Some (fold min ds d))"

definition dates :: "int \<Rightarrow> int list" where
  "dates start = [start .. start + (RECURRENCE_DAYS - 1)]"

definition ingredients :: "inputs \<Rightarrow> string list" where
  "ingredients inp =
     sort (remdups (map f_ingredient (forecast inp) @ map a_ingredient (actual inp)
                    @ map t_ingredient (all_banks inp)))"

text \<open>The median of a non-empty series, as pandas computes it.\<close>

definition median :: "rat list \<Rightarrow> rat" where
  "median xs =
     (let s = sort xs; n = length s
      in if n mod 2 = 1 then s ! (n div 2)
         else (s ! (n div 2 - 1) + s ! (n div 2)) / 2)"

definition usage_series :: "usage_row list \<Rightarrow> string \<Rightarrow> rat list" where
  "usage_series act ing = map a_usage (filter (\<lambda>a. a_ingredient a = ing) act)"

text \<open>
  \<open>typical_daily\<close>: empty when \<open>actual\<close> is empty, else the median of each group of
  \<open>actual.groupby("ingredient")\<close>.
\<close>

definition typical_daily :: "usage_row list \<Rightarrow> (string \<rightharpoonup> rat)" where
  "typical_daily act =
     (if act = [] then Map.empty
      else (\<lambda>ing. case usage_series act ing of
                    [] \<Rightarrow> None
                  | x # xs \<Rightarrow> Some (median (x # xs))))"

definition fallback_usage ::
  "(string \<rightharpoonup> rat) \<Rightarrow> string \<Rightarrow> rat option \<Rightarrow> rat option \<Rightarrow> rat" where
  "fallback_usage td ing fu au =
     (case fu of
        Some f \<Rightarrow> f
      | None \<Rightarrow> (case au of
                   Some a \<Rightarrow> a
                 | None \<Rightarrow> dict_get td ing 0))"

text \<open>
  A left merge on \<open>(date, ingredient)\<close>: one output row for each matching row of the right
  table, in its order, and one row with a missing value when nothing matches.
\<close>

definition forecast_matches :: "forecast_row list \<Rightarrow> int \<Rightarrow> string \<Rightarrow> rat option list" where
  "forecast_matches fc d ing =
     (case filter (\<lambda>f. f_date f = d \<and> f_ingredient f = ing) fc of
        [] \<Rightarrow> [None]
      | f # fs \<Rightarrow> map f_usage (f # fs))"

definition actual_matches :: "usage_row list \<Rightarrow> int \<Rightarrow> string \<Rightarrow> rat option list" where
  "actual_matches act d ing =
     (case filter (\<lambda>a. a_date a = d \<and> a_ingredient a = ing) act of
        [] \<Rightarrow> [None]
      | a # as \<Rightarrow> map (\<lambda>a. Some (a_usage a)) (a # as))"

text \<open>
  \<open>deliveries\<close>: the quantities of all bank rows, summed by delivery date and ingredient.
  The same table, as a dictionary, is \<open>deliv_lookup\<close> of the inventory estimator.
\<close>

definition deliveries :: "txn list \<Rightarrow> (int \<times> string \<rightharpoonup> rat)" where
  "deliveries banks =
     (\<lambda>(d, ing).
        case filter (\<lambda>t. txn_date t + LEAD_TIME_DAYS = d \<and> t_ingredient t = ing) banks of
          [] \<Rightarrow> None
        | t # ts \<Rightarrow> Some (sum_list (map qty (t # ts))))"

definition grid_row :: "inputs \<Rightarrow> int \<Rightarrow> string \<Rightarrow> rat option \<Rightarrow> rat option \<Rightarrow> daily_row" where
  "grid_row inp d ing fu au =
     \<lparr> d_date = d, d_ingredient = ing, forecast_usage = fu, actual_usage = au,
       daily_usage = fallback_usage (typical_daily (actual inp)) ing fu au,
       delivery_qty = dict_get (deliveries (all_banks inp)) (d, ing) 0,
       planned_delivery_qty = 0 \<rparr>"

definition grid_rows :: "inputs \<Rightarrow> int \<Rightarrow> string \<Rightarrow> daily_row list" where
  "grid_rows inp d ing =
     concat (map (\<lambda>fu. map (\<lambda>au. grid_row inp d ing fu au) (actual_matches (actual inp) d ing))
                 (forecast_matches (forecast inp) d ing))"

text \<open>
  The grid when the planner starts: the product of dates and ingredients, merged, and
  sorted by \<open>(ingredient, date)\<close>.
\<close>

definition daily :: "inputs \<Rightarrow> int \<Rightarrow> daily_row list" where
  "daily inp start =
     sort_key (\<lambda>r. (d_ingredient r, d_date r))
       (concat (map (\<lambda>d. concat (map (\<lambda>ing. grid_rows inp d ing) (ingredients inp)))
                    (dates start)))"

section \<open>Inventory estimator\<close>

text \<open>
  \<open>actual_lookup\<close>: \<open>to_dict\<close> keeps the last row of a duplicated key.
\<close>

definition actual_lookup :: "usage_row list \<Rightarrow> (int \<times> string \<rightharpoonup> rat)" where
  "actual_lookup act = map_of (rev (map (\<lambda>a. ((a_date a, a_ingredient a), a_usage a)) act))"

text \<open>The loop over \<open>sim_dates\<close>.\<close>

fun replay ::
  "(int \<times> string \<rightharpoonup> rat) \<Rightarrow> (int \<times> string \<rightharpoonup> rat) \<Rightarrow> string \<Rightarrow> rat \<Rightarrow> int list \<Rightarrow> rat" where
  "replay dl al ing bal [] = bal"
| "replay dl al ing bal (d # ds) =
     replay dl al ing (bal + dict_get dl (d, ing) 0 - dict_get al (d, ing) 0) ds"

text \<open>The body of the loop of \<open>compute_current_inventory\<close>: the value stored for \<open>ing\<close>.\<close>

definition inventory_of :: "inputs \<Rightarrow> int \<Rightarrow> string \<Rightarrow> rat" where
  "inventory_of inp asof_date ing =
     (case latest_buy (bank inp) ing of
        None \<Rightarrow> 0
      | Some t \<Rightarrow>
          (let last_order_date = txn_date t;
               last_delivery_date = last_order_date + LEAD_TIME_DAYS;
               last_order_qty = qty t
           in if last_delivery_date > asof_date then 0
              else replay (deliveries (all_banks inp)) (actual_lookup (actual inp)) ing
                     last_order_qty [last_delivery_date .. asof_date - 1]))"

text \<open>The returned dictionary, as the list of its items in insertion order.\<close>

definition compute_current_inventory :: "inputs \<Rightarrow> int \<Rightarrow> (string \<times> rat) list" where
  "compute_current_inventory inp asof_date =
     map (\<lambda>ing. (ing, inventory_of inp asof_date ing)) (ingredients inp)"

definition variation_factor :: "nat \<Rightarrow> rat" where
  "variation_factor i = 3 / 10 + of_nat (i mod 10) * (12 / 100)"

text \<open>
  The staggering loop: \<open>enumerate(sorted(base_inventory.keys()))\<close>. Every key read is a
  key of \<open>base_inventory\<close>, so the lookup cannot fail.
\<close>

definition current_inventory :: "(string \<times> rat) list \<Rightarrow> (string \<rightharpoonup> rat)" where
  "current_inventory base_inventory =
     map_of (rev (map (\<lambda>(i, ing). (ing, max 0 (the (map_of base_inventory ing) * variation_factor i)))
                      (enumerate 0 (sort (map fst base_inventory)))))"

section \<open>The planner loop and the plan\<close>

text \<open>\<open>daily.loc[(ingredient == ing) & (date == delivery_date), "planned_delivery_qty"] += order_qty\<close>\<close>

definition add_planned :: "string \<Rightarrow> int \<Rightarrow> rat \<Rightarrow> daily_row list \<Rightarrow> daily_row list" where
  "add_planned ing dd q dl =
     map (\<lambda>r. if d_ingredient r = ing \<and> d_date r = dd
               then r\<lparr> planned_delivery_qty := planned_delivery_qty r + q \<rparr> else r) dl"

text \<open>
  \<open>for ing in ingredients\<close>: the state is the grid and \<open>reorder_rows\<close>.
\<close>

fun planner_loop ::
  "txn list \<Rightarrow> (string \<rightharpoonup> rat) \<Rightarrow> string list \<Rightarrow> daily_row list \<Rightarrow> reorder_row list
     \<Rightarrow> daily_row list \<times> reorder_row list" where
  "planner_loop bk ci [] dl reorder_rows = (dl, reorder_rows)"
| "planner_loop bk ci (ing # ings) dl reorder_rows =
     (let df = filter (\<lambda>r. d_ingredient r = ing) dl;
          start_inv = dict_get ci ing 0
      in case plan_ingredient ing df start_inv (latest_buy bk ing) (unit_or_infer bk ing) of
           None \<Rightarrow> planner_loop bk ci ings dl reorder_rows
         | Some (row, q) \<Rightarrow>
             planner_loop bk ci ings (add_planned ing (delivery_date row) q dl)
               (reorder_rows @ [row]))"

text \<open>The starting inventory the planner reads for an ingredient.\<close>

definition start_inv_of :: "inputs \<Rightarrow> int \<Rightarrow> string \<Rightarrow> rat" where
  "start_inv_of inp start ing =
     dict_get (current_inventory (compute_current_inventory inp start)) ing 0"

definition reorder_rows_at :: "inputs \<Rightarrow> int \<Rightarrow> reorder_row list" where
  "reorder_rows_at inp start =
     snd (planner_loop (bank inp) (current_inventory (compute_current_inventory inp start))
            (ingredients inp) (daily inp start) [])"

text \<open>
  \<open>sort_values(["order_date", "estimated_cost_gbp"], ascending=[True, False])\<close>.
\<close>

definition reorder_plan_at :: "inputs \<Rightarrow> int \<Rightarrow> reorder_row list" where
  "reorder_plan_at inp start =
     sort_key (\<lambda>r. (order_date r, - estimated_cost_gbp r)) (reorder_rows_at inp start)"

definition reorder_plan :: "inputs \<Rightarrow> reorder_row list option" where
  "reorder_plan inp = map_option (reorder_plan_at inp) (start_date inp)"

section \<open>Auxiliary notions for the statements\<close>

text \<open>The rows of one ingredient, \<open>daily[daily["ingredient"] == ing]\<close>.\<close>

definition grid_slice :: "daily_row list \<Rightarrow> string \<Rightarrow> daily_row list" where
  "grid_slice dl ing = filter (\<lambda>r. d_ingredient r = ing) dl"

text \<open>The row, if any, that one pass of the loop body appends for \<open>ing\<close> on the grid \<open>dl\<close>.\<close>

definition plan_of ::
  "txn list \<Rightarrow> (string \<rightharpoonup> rat) \<Rightarrow> daily_row list \<Rightarrow> string \<Rightarrow> reorder_row option" where
  "plan_of bk ci dl ing =
     map_option fst (plan_ingredient ing (grid_slice dl ing) (dict_get ci ing 0)
                       (latest_buy bk ing) (unit_or_infer bk ing))"

definition erase_planned :: "daily_row \<Rightarrow> daily_row" where
  "erase_planned r = r\<lparr> planned_delivery_qty := 0 \<rparr>"

subsection \<open>The scenario of the specification\<close>

text \<open>
  Seven horizon days \<open>d0 + 1, \<dots>, d0 + 7\<close> of the ingredient Bun, each with usage 50 and
  no delivery, and a latest buy at unit cost \<open>0.5\<close>.
\<close>

definition bun_row :: "int \<Rightarrow> daily_row" where
  "bun_row d = \<lparr> d_date = d, d_ingredient = ''Bun'', forecast_usage = Some 50,
     actual_usage = None, daily_usage = 50, delivery_qty = 0, planned_delivery_qty = 0 \<rparr>"

definition bun_grid :: "int \<Rightarrow> daily_row list" where
  "bun_grid d0 = map (\<lambda>k. bun_row (d0 + k)) [1, 2, 3, 4, 5, 6, 7]"

definition bun_buy :: "string \<Rightarrow> string \<Rightarrow> rat \<Rightarrow> int \<Rightarrow> txn" where
  "bun_buy u m q td = \<lparr> t_ingredient = ''Bun'', t_unit = u, qty = q, unit_cost_gbp = 1 / 2,
     merchant = m, txn_date = td \<rparr>"

subsection \<open>A complete run\<close>

text \<open>
  A small run with a horizon that starts on day 10. Lettuce was bought in the first week
  only; Bun was bought twice in the last week, with two units; the last Milk order lands
  on the first horizon day and the last Oil order two days later; Cheese was used more
  than was delivered; Salt was never bought.
\<close>

definition buy :: "string \<Rightarrow> string \<Rightarrow> rat \<Rightarrow> rat \<Rightarrow> string \<Rightarrow> int \<Rightarrow> txn" where
  "buy i u q c m d = \<lparr> t_ingredient = i, t_unit = u, qty = q, unit_cost_gbp = c,
     merchant = m, txn_date = d \<rparr>"

definition bun_forecast :: "int \<Rightarrow> forecast_row" where
  "bun_forecast d = \<lparr> f_date = d, f_ingredient = ''Bun'', f_usage = Some 50 \<rparr>"

definition used :: "int \<Rightarrow> string \<Rightarrow> rat \<Rightarrow> usage_row" where
  "used d i u = \<lparr> a_date = d, a_ingredient = i, a_unit = ''g'', a_usage = u \<rparr>"

definition example_inputs :: inputs where
  "example_inputs =
     \<lparr> bank_week1 = [buy ''Lettuce'' ''kg'' 10 3 ''Farm'' 1],
       bank_week2 = [],
       bank_week3 = [buy ''Bun'' ''kg'' 100 (1 / 2) ''Bakery'' 4,
                     buy ''Bun'' ''unit'' 400 (1 / 2) ''Bakery'' 5,
                     buy ''Apple'' ''kg'' 10 2 ''Farm'' 2,
                     buy ''Cheese'' ''g'' 5 4 ''Dairy'' 3,
                     buy ''Milk'' ''ml'' 100 1 ''Dairy'' 7,
                     buy ''Oil'' ''ml'' 50 6 ''Grocer'' 9],
       forecast = map bun_forecast [10, 11, 12, 13, 14, 15, 16]
                  @ [\<lparr> f_date = 10, f_ingredient = ''Salt'', f_usage = Some (1 / 8) \<rparr>],
       actual = [used 8 ''Apple'' 3, used 9 ''Apple'' 5, used 8 ''Cheese'' 30] \<rparr>"

definition recommendation ::
  "string \<Rightarrow> string \<Rightarrow> int \<Rightarrow> rat \<Rightarrow> string \<Rightarrow> rat \<Rightarrow> rat \<Rightarrow> reorder_row" where
  "recommendation i s od q u c e =
     \<lparr> r_ingredient = i, supplier = s, order_date = od, delivery_date = od + 3,
       order_qty = q, r_unit = u, r_unit_cost_gbp = c, estimated_cost_gbp = e,
       stockout_date_if_no_order = od + 3 \<rparr>"

definition cheese_order :: reorder_row where
  "cheese_order = recommendation ''Cheese'' ''Dairy'' 7 210 ''g'' 4 840"

definition apple_order :: reorder_row where
  "apple_order = recommendation ''Apple'' ''Farm'' 7 (122 / 5) ''kg'' 2 (244 / 5)"

definition salt_order :: reorder_row where
  "salt_order = recommendation ''Salt'' ''Unknown'' 7 (3 / 25) ''unit'' 0 0"

definition bun_order :: reorder_row where
  "bun_order = recommendation ''Bun'' ''Bakery'' 13 14 ''unit'' (1 / 2) 7"

definition example_plan :: "reorder_row list" where
  "example_plan = [cheese_order, apple_order, salt_order, bun_order]"

subsection \<open>Notions of the specification\<close>

text \<open>
  The do-nothing replay of the specification: the running inventory after the first \<open>k\<close>
  days of the rows \<open>df\<close>, from the starting inventory \<open>s\<close>, and the property that it is
  negative on no day.
\<close>

definition running_inventory :: "rat \<Rightarrow> daily_row list \<Rightarrow> nat \<Rightarrow> rat" where
  "running_inventory s df k =
     s + sum_list (map (\<lambda>r. delivery_qty r - daily_usage r) (take k df))"

definition never_negative :: "rat \<Rightarrow> daily_row list \<Rightarrow> bool" where
  "never_negative s df = list_all (\<lambda>k. 0 \<le> running_inventory s df k) [1 ..< Suc (length df)]"





text \<open>The grid row of Apple on the first horizon day of the example run.\<close>

definition apple_day10 :: daily_row where
  "apple_day10 = \<lparr> d_date = 10, d_ingredient = ''Apple'', forecast_usage = None,
     actual_usage = None, daily_usage = 4, delivery_qty = 0, planned_delivery_qty = 0 \<rparr>"

section \<open>The planner loop, characterised\<close>

text \<open>
  The planner reads the date, the delivery and the usage of a row, never its planned
  delivery: the rows appended do not depend on the planned deliveries recorded so far.
\<close>

lemma find_stockout_erase:
  "find_stockout b s (map erase_planned rs) = find_stockout b s rs"
  by (induction rs arbitrary: b s) (simp_all add: erase_planned_def Let_def)

lemma inv_morning_erase:
  "inv_at_delivery_morning b dd (map erase_planned rs) = inv_at_delivery_morning b dd rs"
  by (induction rs arbitrary: b) (simp_all add: erase_planned_def)

lemma remaining_need_erase:
  "remaining_need dd (map erase_planned rs) = remaining_need dd rs"
  by (induction rs) (simp_all add: remaining_need_def erase_planned_def)

lemma plan_ingredient_erase:
  "plan_ingredient ing (map erase_planned df) s lb u = plan_ingredient ing df s lb u"
  by (simp add: plan_ingredient_def sized_order_qty_def find_stockout_erase
      inv_morning_erase remaining_need_erase split: option.split)

lemma grid_slice_erase:
  "grid_slice (map erase_planned dl) ing = map erase_planned (grid_slice dl ing)"
  by (induction dl) (simp_all add: grid_slice_def erase_planned_def)

lemma erase_add_planned:
  "map erase_planned (add_planned ing dd q dl) = map erase_planned dl"
  by (induction dl) (simp_all add: add_planned_def erase_planned_def)

lemma plan_of_cong:
  assumes "map erase_planned dl = map erase_planned dl'"
  shows "plan_of bk ci dl ing = plan_of bk ci dl' ing"
proof -
  have "plan_ingredient ing (grid_slice dl ing) s lb u
        = plan_ingredient ing (grid_slice dl' ing) s lb u" for s lb u
    using assms plan_ingredient_erase grid_slice_erase by metis
  then show ?thesis by (simp add: plan_of_def)
qed

lemma planner_loop_rows:
  "snd (planner_loop bk ci ings dl rows) = rows @ List.map_filter (plan_of bk ci dl) ings"
proof (induction ings arbitrary: dl rows)
  case Nil
  then show ?case by simp
next
  case (Cons ing ings)
  show ?case
  proof (cases "plan_ingredient ing (grid_slice dl ing) (dict_get ci ing 0)
                       (latest_buy bk ing) (unit_or_infer bk ing)")
    case None
    then have step: "planner_loop bk ci (ing # ings) dl rows = planner_loop bk ci ings dl rows"
      by (simp add: grid_slice_def)
    from None have po: "plan_of bk ci dl ing = None"
      by (simp add: plan_of_def)
    show ?thesis
      unfolding step using Cons.IH [of dl rows] po by simp
  next
    case (Some p)
    obtain row q where p: "p = (row, q)" by (cases p)
    have e: "List.map_filter (plan_of bk ci (add_planned ing (delivery_date row) q dl)) ings
             = List.map_filter (plan_of bk ci dl) ings"
      by (rule arg_cong [where f = "\<lambda>f. List.map_filter f ings"], rule ext,
          rule plan_of_cong, rule erase_add_planned)
    have step: "planner_loop bk ci (ing # ings) dl rows
                = planner_loop bk ci ings (add_planned ing (delivery_date row) q dl) (rows @ [row])"
      using Some p by (simp add: grid_slice_def)
    from Some p have po: "plan_of bk ci dl ing = Some row"
      by (simp add: plan_of_def)
    show ?thesis
      unfolding step
      using Cons.IH [of "add_planned ing (delivery_date row) q dl" "rows @ [row]"] e po
      by simp
  qed
qed

lemma plan_of_ingredient: "plan_of bk ci dl ing = Some r \<Longrightarrow> r_ingredient r = ing"
  by (auto simp: plan_of_def plan_ingredient_def Let_def split: option.splits)

lemma plan_of_dates:
  "plan_of bk ci dl ing = Some r \<Longrightarrow>
     delivery_date r = order_date r + LEAD_TIME_DAYS
     \<and> order_date r = stockout_date_if_no_order r - LEAD_TIME_DAYS
     \<and> delivery_date r = stockout_date_if_no_order r"
  by (auto simp: plan_of_def plan_ingredient_def Let_def split: option.splits)

lemma map_filter_set: "r \<in> set (List.map_filter f xs) \<longleftrightarrow> (\<exists>x \<in> set xs. f x = Some r)"
  by (induction xs) (auto split: option.splits)

lemma distinct_map_filter_key:
  assumes "distinct xs" and "\<And>x r. f x = Some r \<Longrightarrow> k r = x"
  shows "distinct (map k (List.map_filter f xs))"
  using assms(1)
proof (induction xs)
  case Nil
  then show ?case by simp
next
  case (Cons x xs)
  show ?case
  proof (cases "f x")
    case None
    with Cons show ?thesis by simp
  next
    case (Some r)
    have "k r \<notin> k ` set (List.map_filter f xs)"
    proof
      assume "k r \<in> k ` set (List.map_filter f xs)"
      then obtain r' where "r' \<in> set (List.map_filter f xs)" "k r' = k r" by auto
      then obtain y where "y \<in> set xs" "f y = Some r'" by (auto simp: map_filter_set)
      with assms(2) Some \<open>k r' = k r\<close> have "y = x" by metis
      with \<open>y \<in> set xs\<close> Cons.prems show False by simp
    qed
    with Cons Some show ?thesis by simp
  qed
qed

lemma distinct_ingredients: "distinct (ingredients inp)"
  by (simp add: ingredients_def)


lemma reorder_rows_at_eq:
  "reorder_rows_at inp start =
     List.map_filter (plan_of (bank inp) (current_inventory (compute_current_inventory inp start))
                        (daily inp start)) (ingredients inp)"
  by (simp add: reorder_rows_at_def planner_loop_rows)

lemma set_reorder_plan_at: "set (reorder_plan_at inp start) = set (reorder_rows_at inp start)"
  by (simp add: reorder_plan_at_def)

lemma distinct_filter_le1:
  "distinct (map k xs) \<Longrightarrow> length (filter (\<lambda>r. k r = a) xs) \<le> 1"
  by (induction xs) (auto simp: filter_empty_conv image_iff)

text \<open>A run has a plan exactly when the forecast table has a row.\<close>

lemma reorder_plan_defined: "(\<exists>plan. reorder_plan inp = Some plan) \<longleftrightarrow> forecast inp \<noteq> []"
  by (cases "forecast inp") (simp_all add: reorder_plan_def start_date_def)

lemma example_start: "start_date example_inputs = Some 10"
  by code_simp

lemma example_run: "reorder_plan example_inputs = Some example_plan"
  by code_simp

section \<open>The scenario\<close>

lemma round2_scenario: "round2 230 = 230" "round2 115 = 115"
  by (simp_all add: round2_def round_half_even_def Let_def)

text \<open>
  Claim C1. With \<open>LEAD_TIME_DAYS = 3\<close>, seven chronological horizon days D1..D7 of one
  ingredient with usage 50 and no delivery each, and starting inventory 120, the planner
  finds the stockout on D3, orders on D0 for delivery on D3, computes an inventory of 20
  on the delivery morning and a remaining need of 250, and emits a recommendation with
  order quantity 230 and, at unit cost 0.5, estimated cost 115. Here D0 is \<open>d0\<close> and Dk
  is \<open>d0 + k\<close>.
\<close>

theorem bun_scenario:
  "LEAD_TIME_DAYS = 3
   \<and> find_stockout 120 None (bun_grid d0) = Some (d0 + 3)
   \<and> inv_at_delivery_morning 120 (d0 + 3) (bun_grid d0) = 20
   \<and> remaining_need (d0 + 3) (bun_grid d0) = 250
   \<and> plan_ingredient ''Bun'' (bun_grid d0) 120 (Some (bun_buy u m q td)) fb =
       Some (\<lparr> r_ingredient = ''Bun'', supplier = m, order_date = d0,
               delivery_date = d0 + 3, order_qty = 230, r_unit = u,
               r_unit_cost_gbp = 1 / 2, estimated_cost_gbp = 115,
               stockout_date_if_no_order = d0 + 3 \<rparr>, 230)"
proof -
  have s: "find_stockout 120 None (bun_grid d0) = Some (d0 + 3)"
    by (simp add: bun_grid_def bun_row_def Let_def)
  have m: "inv_at_delivery_morning 120 (d0 + 3) (bun_grid d0) = 20"
    by (simp add: bun_grid_def bun_row_def)
  have n: "remaining_need (d0 + 3) (bun_grid d0) = 250"
    by (simp add: remaining_need_def bun_grid_def bun_row_def)
  have q: "sized_order_qty 120 (d0 + 3) (bun_grid d0) = 230"
    by (simp add: sized_order_qty_def m n)
  show ?thesis
    by (simp add: s m n plan_ingredient_def q LEAD_TIME_DAYS_def bun_buy_def
        round2_scenario Let_def)
qed

section \<open>Properties of every plan\<close>

text \<open>
  Claim C5. In every run, each ingredient has at most one recommendation in the emitted
  plan.
\<close>

theorem one_recommendation_per_ingredient:
  assumes "reorder_plan inp = Some plan"
  shows "length (filter (\<lambda>r. r_ingredient r = ing) plan) \<le> 1"
proof -
  obtain start where p: "plan = reorder_plan_at inp start"
    using assms by (auto simp: reorder_plan_def)
  have "distinct (map r_ingredient (reorder_rows_at inp start))"
    unfolding reorder_rows_at_eq
    by (rule distinct_map_filter_key [OF distinct_ingredients]) (rule plan_of_ingredient)
  then have "length (filter (\<lambda>r. r_ingredient r = ing) (reorder_rows_at inp start)) \<le> 1"
    by (rule distinct_filter_le1)
  then show ?thesis
    by (simp add: p reorder_plan_at_def filter_sort)
qed

theorem one_recommendation_per_ingredient_witness:
  "reorder_plan example_inputs = Some example_plan
   \<and> length (filter (\<lambda>r. r_ingredient r = ''Bun'') example_plan) = 1"
proof -
  have "length (filter (\<lambda>r. r_ingredient r = ''Bun'') example_plan) \<le> 1"
    using one_recommendation_per_ingredient [OF example_run, of "''Bun''"] .
  moreover have "filter (\<lambda>r. r_ingredient r = ''Bun'') example_plan \<noteq> []"
    by (simp add: example_plan_def bun_order_def recommendation_def)
  ultimately have "length (filter (\<lambda>r. r_ingredient r = ''Bun'') example_plan) = 1"
    by (cases "filter (\<lambda>r. r_ingredient r = ''Bun'') example_plan") simp_all
  with example_run show ?thesis by simp
qed

text \<open>
  Claim C7. For every emitted recommendation, the delivery date is the order date plus
  \<open>LEAD_TIME_DAYS\<close>, the order date is the stockout date minus \<open>LEAD_TIME_DAYS\<close>, and the
  delivery date is the recorded stockout date.
\<close>

theorem recommendation_dates:
  assumes "reorder_plan inp = Some plan" and "r \<in> set plan"
  shows "delivery_date r = order_date r + LEAD_TIME_DAYS
     \<and> order_date r = stockout_date_if_no_order r - LEAD_TIME_DAYS
     \<and> delivery_date r = stockout_date_if_no_order r"
proof -
  obtain start where p: "plan = reorder_plan_at inp start"
    using assms by (auto simp: reorder_plan_def)
  with assms(2) have "r \<in> set (reorder_rows_at inp start)"
    by (simp add: set_reorder_plan_at)
  then obtain ing where
    "plan_of (bank inp) (current_inventory (compute_current_inventory inp start))
       (daily inp start) ing = Some r"
    by (auto simp: reorder_rows_at_eq map_filter_set)
  then show ?thesis by (rule plan_of_dates)
qed

theorem recommendation_dates_witness:
  "reorder_plan example_inputs = Some example_plan
   \<and> bun_order \<in> set example_plan
   \<and> delivery_date bun_order = 13 + LEAD_TIME_DAYS
   \<and> order_date bun_order = 16 - LEAD_TIME_DAYS
   \<and> stockout_date_if_no_order bun_order = 16"
proof -
  have m: "bun_order \<in> set example_plan"
    by (simp add: example_plan_def)
  show ?thesis
    using example_run m recommendation_dates [OF example_run m]
    by (simp add: bun_order_def recommendation_def LEAD_TIME_DAYS_def)
qed

subsection \<open>Stockout detection\<close>

lemma find_stockout_Some: "find_stockout b (Some x) rs = Some x"
  by (induction rs arbitrary: b) (simp_all add: Let_def)

lemma running_inventory_Cons:
  "running_inventory b (r # rs) (Suc k) = running_inventory (b + delivery_qty r - daily_usage r) rs k"
  by (simp add: running_inventory_def algebra_simps)

lemma all_shift: "(\<forall>k \<in> {1 ..< Suc (Suc n)}. P k) \<longleftrightarrow> P 1 \<and> (\<forall>k \<in> {1 ..< Suc n}. P (Suc k))"
proof
  assume a: "\<forall>k \<in> {1 ..< Suc (Suc n)}. P k"
  show "P 1 \<and> (\<forall>k \<in> {1 ..< Suc n}. P (Suc k))"
    using a by auto
next
  assume a: "P 1 \<and> (\<forall>k \<in> {1 ..< Suc n}. P (Suc k))"
  show "\<forall>k \<in> {1 ..< Suc (Suc n)}. P k"
  proof
    fix k assume k: "k \<in> {1 ..< Suc (Suc n)}"
    show "P k"
    proof (cases "k = 1")
      case True with a show ?thesis by simp
    next
      case False
      with k obtain j where "k = Suc j" "j \<in> {1 ..< Suc n}"
        by (cases k) auto
      with a show ?thesis by simp
    qed
  qed
qed

lemma find_stockout_None_iff:
  "find_stockout b None rs = None \<longleftrightarrow> never_negative b rs"
proof (induction rs arbitrary: b)
  case Nil
  then show ?case by (simp add: never_negative_def)
next
  case (Cons r rs)
  let ?b = "b + delivery_qty r - daily_usage r"
  have one: "running_inventory b (r # rs) 1 = ?b"
    by (simp add: running_inventory_def)
  have nn: "never_negative b (r # rs) \<longleftrightarrow> 0 \<le> ?b \<and> never_negative ?b rs"
    unfolding never_negative_def list_all_iff set_upt length_Cons
    by (subst all_shift) (simp add: one running_inventory_Cons del: One_nat_def)
  show ?case
  proof (cases "?b < 0")
    case True
    then show ?thesis by (simp add: Let_def find_stockout_Some nn)
  next
    case False
    then show ?thesis using Cons.IH [of ?b] by (simp add: Let_def nn)
  qed
qed

lemma plan_of_None_iff:
  "plan_of bk ci dl ing = None \<longleftrightarrow> never_negative (dict_get ci ing 0) (grid_slice dl ing)"
  by (simp add: plan_of_def plan_ingredient_def find_stockout_None_iff [symmetric] Let_def
      split: option.split)

lemma example_milk_covered:
  "never_negative (start_inv_of example_inputs 10 ''Milk'') (grid_slice (daily example_inputs 10) ''Milk'')"
  by code_simp

text \<open>
  Claim C6. An ingredient whose do-nothing replay over the horizon, from its starting
  inventory, never makes the running inventory negative has no recommendation in the
  plan.
\<close>

theorem covered_ingredient_not_recommended:
  assumes "reorder_plan inp = Some plan" and "start_date inp = Some start"
    and "never_negative (start_inv_of inp start ing) (grid_slice (daily inp start) ing)"
  shows "ing \<notin> r_ingredient ` set plan"
proof
  assume "ing \<in> r_ingredient ` set plan"
  then obtain r where r: "r \<in> set plan" and e: "r_ingredient r = ing" by auto
  from assms(1,2) have p: "plan = reorder_plan_at inp start"
    by (simp add: reorder_plan_def)
  let ?ci = "current_inventory (compute_current_inventory inp start)"
  from r p obtain i where i: "plan_of (bank inp) ?ci (daily inp start) i = Some r"
    by (auto simp: set_reorder_plan_at reorder_rows_at_eq map_filter_set)
  then have "r_ingredient r = i" by (rule plan_of_ingredient)
  with e i have "plan_of (bank inp) ?ci (daily inp start) ing = Some r" by simp
  moreover from assms(3) have "plan_of (bank inp) ?ci (daily inp start) ing = None"
    by (simp add: plan_of_None_iff start_inv_of_def)
  ultimately show False by simp
qed

theorem covered_ingredient_not_recommended_witness:
  "reorder_plan example_inputs = Some example_plan
   \<and> start_date example_inputs = Some 10
   \<and> never_negative (start_inv_of example_inputs 10 ''Milk'')
        (grid_slice (daily example_inputs 10) ''Milk'')
   \<and> ''Milk'' \<notin> r_ingredient ` set example_plan"
  using example_run example_start example_milk_covered
    covered_ingredient_not_recommended [OF example_run example_start example_milk_covered]
  by simp

subsection \<open>Order quantity\<close>

lemma round_half_even_nonneg: "0 \<le> y \<Longrightarrow> 0 \<le> round_half_even y"
  by (auto simp: round_half_even_def Let_def)

lemma round2_nonneg: "0 \<le> x \<Longrightarrow> 0 \<le> round2 x"
  by (simp add: round2_def round_half_even_nonneg)

lemma plan_of_qty:
  "plan_of bk ci dl ing = Some r \<Longrightarrow>
     order_qty r = round2 (sized_order_qty (dict_get ci ing 0) (delivery_date r) (grid_slice dl ing))"
  by (auto simp: plan_of_def plan_ingredient_def Let_def split: option.splits)

lemma example_salt:
  "sized_order_qty (start_inv_of example_inputs 10 ''Salt'') 10 (grid_slice (daily example_inputs 10) ''Salt'') = 1 / 8"
  by code_simp

lemma salt_order_emitted: "salt_order \<in> set example_plan"
  by (simp add: example_plan_def)

text \<open>
  Claim C8, as amended. Every emitted recommendation has \<open>order_qty \<ge> 0\<close>, and its
  \<open>order_qty\<close> is \<open>max(0, remaining_need - max(0, inventory_at_delivery_morning))\<close>
  rounded to two decimals, where the remaining need and the inventory on the delivery
  morning are those of the recommendation's ingredient and delivery date.
\<close>

theorem order_qty_rounded_nonneg:
  assumes "reorder_plan inp = Some plan" and "start_date inp = Some start" and "r \<in> set plan"
  shows "0 \<le> order_qty r
     \<and> order_qty r =
         round2 (max 0 (remaining_need (delivery_date r) (grid_slice (daily inp start) (r_ingredient r))
                        - max 0 (inv_at_delivery_morning (start_inv_of inp start (r_ingredient r))
                                   (delivery_date r) (grid_slice (daily inp start) (r_ingredient r)))))"
proof -
  from assms(1,2) have p: "plan = reorder_plan_at inp start"
    by (simp add: reorder_plan_def)
  let ?ci = "current_inventory (compute_current_inventory inp start)"
  from assms(3) p obtain i where i: "plan_of (bank inp) ?ci (daily inp start) i = Some r"
    by (auto simp: set_reorder_plan_at reorder_rows_at_eq map_filter_set)
  then have ri: "r_ingredient r = i" by (rule plan_of_ingredient)
  have q: "order_qty r = round2 (sized_order_qty (start_inv_of inp start i) (delivery_date r)
             (grid_slice (daily inp start) i))"
    using plan_of_qty [OF i] by (simp add: start_inv_of_def)
  have "0 \<le> order_qty r"
    unfolding q by (rule round2_nonneg) (simp add: sized_order_qty_def)
  with q ri show ?thesis by (simp add: sized_order_qty_def)
qed

theorem order_qty_rounded_nonneg_witness:
  "reorder_plan example_inputs = Some example_plan
   \<and> start_date example_inputs = Some 10
   \<and> salt_order \<in> set example_plan
   \<and> 0 \<le> order_qty salt_order
   \<and> order_qty salt_order = round2 (1 / 8)"
proof -
  have i: "r_ingredient salt_order = ''Salt''" and d: "delivery_date salt_order = 10"
    by (simp_all add: salt_order_def recommendation_def)
  from example_salt
  have s: "max 0 (remaining_need 10 (grid_slice (daily example_inputs 10) ''Salt'')
                  - max 0 (inv_at_delivery_morning (start_inv_of example_inputs 10 ''Salt'') 10
                             (grid_slice (daily example_inputs 10) ''Salt''))) = 1 / 8"
    by (simp only: sized_order_qty_def)
  from order_qty_rounded_nonneg [OF example_run example_start salt_order_emitted]
  have "0 \<le> order_qty salt_order \<and> order_qty salt_order = round2 (1 / 8)"
    unfolding i d s .
  with example_run example_start salt_order_emitted show ?thesis
    by blast
qed

text \<open>
  The claim as stated fails: Salt, never bought and forecast at \<open>1/8\<close> on the first
  horizon day, is sized at \<open>1/8\<close> and emitted with \<open>order_qty = 0.12\<close>.
\<close>

theorem order_qty_unrounded_counterexample:
  "reorder_plan example_inputs = Some example_plan
   \<and> salt_order \<in> set example_plan
   \<and> order_qty salt_order = 3 / 25
   \<and> max 0 (remaining_need (delivery_date salt_order)
               (grid_slice (daily example_inputs 10) (r_ingredient salt_order))
             - max 0 (inv_at_delivery_morning
                        (start_inv_of example_inputs 10 (r_ingredient salt_order))
                        (delivery_date salt_order)
                        (grid_slice (daily example_inputs 10) (r_ingredient salt_order))))
       = 1 / 8"
proof -
  have i: "r_ingredient salt_order = ''Salt''" and d: "delivery_date salt_order = 10"
    and q: "order_qty salt_order = 3 / 25"
    by (simp_all add: salt_order_def recommendation_def)
  from example_salt
  have "max 0 (remaining_need 10 (grid_slice (daily example_inputs 10) ''Salt'')
               - max 0 (inv_at_delivery_morning (start_inv_of example_inputs 10 ''Salt'') 10
                          (grid_slice (daily example_inputs 10) ''Salt''))) = 1 / 8"
    by (simp only: sized_order_qty_def)
  with example_run salt_order_emitted q show ?thesis
    by (simp only: i d simp_thms)
qed

section \<open>Starting inventory\<close>

lemma map_of_nonneg:
  assumes "\<forall>(k, v) \<in> set xs. (0::rat) \<le> v"
  shows "0 \<le> dict_get (map_of xs) k 0"
proof (cases "map_of xs k")
  case None
  then show ?thesis by (simp add: dict_get_def)
next
  case (Some v)
  then have "(k, v) \<in> set xs" by (rule map_of_SomeD)
  with assms Some show ?thesis by (auto simp: dict_get_def)
qed

lemma example_cheese: "map_of (compute_current_inventory example_inputs 10) ''Cheese'' = Some (- 20)"
  "start_inv_of example_inputs 10 ''Cheese'' = 0"
  by code_simp+

text \<open>
  Claim C10. For every ingredient, the starting inventory the planner simulates from is
  non-negative: the replayed balance is scaled and clamped with \<open>max(0, \<cdot>)\<close>, also when
  the replayed history yields a negative balance.
\<close>

theorem start_inventory_nonneg: "0 \<le> start_inv_of inp start ing"
  unfolding start_inv_of_def current_inventory_def
  by (rule map_of_nonneg) auto

theorem start_inventory_nonneg_witness:
  "map_of (compute_current_inventory example_inputs 10) ''Cheese'' = Some (- 20)
   \<and> start_inv_of example_inputs 10 ''Cheese'' = 0
   \<and> 0 \<le> start_inv_of example_inputs 10 ''Cheese''"
  using example_cheese start_inventory_nonneg [of example_inputs 10 "''Cheese''"]
  by simp

subsection \<open>The latest buy\<close>

lemma latest_buy_in_bank:
  assumes "latest_buy bk ing = Some t"
  shows "t \<in> set bk \<and> t_ingredient t = ing"
proof -
  let ?xs = "filter (\<lambda>t. t_ingredient t = ing) (bank_sorted bk)"
  from assms have ne: "?xs \<noteq> []" and t: "t = last ?xs"
    by (auto simp: latest_buy_def split: list.splits)
  from ne have "last ?xs \<in> set ?xs" by (rule last_in_set)
  with t have "t \<in> set ?xs" by simp
  then show ?thesis by (simp add: bank_sorted_def)
qed

lemma sorted_last_greatest:
  fixes k :: "'a \<Rightarrow> 'b::linorder"
  shows "sorted (map k xs) \<Longrightarrow> x \<in> set xs \<Longrightarrow> k x \<le> k (last xs)"
  by (induction xs) (auto split: if_splits)

lemma latest_buy_most_recent:
  assumes "latest_buy bk ing = Some t" and "t' \<in> set bk" and "t_ingredient t' = ing"
  shows "txn_date t' \<le> txn_date t"
proof -
  let ?k = "\<lambda>t. (t_ingredient t, txn_date t)"
  let ?xs = "filter (\<lambda>t. t_ingredient t = ing) (bank_sorted bk)"
  from assms(1) have ne: "?xs \<noteq> []" and t: "t = last ?xs"
    by (auto simp: latest_buy_def split: list.splits)
  have s: "sorted (map ?k ?xs)"
    by (simp add: bank_sorted_def sorted_filter)
  from assms(2,3) have m: "t' \<in> set ?xs" by (simp add: bank_sorted_def)
  from sorted_last_greatest [OF s m] have "?k t' \<le> ?k t" by (simp add: t)
  moreover have "t_ingredient t = ing" using latest_buy_in_bank [OF assms(1)] by simp
  ultimately show ?thesis using assms(3) by (simp add: less_eq_prod_def)
qed

lemma latest_buy_None_iff: "latest_buy bk ing = None \<longleftrightarrow> ing \<notin> t_ingredient ` set bk"
proof -
  have "latest_buy bk ing = None \<longleftrightarrow> filter (\<lambda>t. t_ingredient t = ing) (bank_sorted bk) = []"
    by (simp add: latest_buy_def split: list.split)
  also have "\<dots> \<longleftrightarrow> ing \<notin> t_ingredient ` set bk"
    by (auto simp: filter_empty_conv bank_sorted_def)
  finally show ?thesis .
qed





subsection \<open>The estimator\<close>













section \<open>Unit resolution\<close>





lemma heuristic_examples:
  "unit_heuristic ''Beef Patty'' = ''g''"
  "unit_heuristic ''Lettuce'' = ''g''"
  "unit_heuristic ''Ketchup'' = ''ml''"
  "unit_heuristic ''Bun'' = ''unit''"
  by code_simp+

lemma example_bun_units:
  "latest_buy (bank example_inputs) ''Bun'' = Some (buy ''Bun'' ''unit'' 400 (1 / 2) ''Bakery'' 5)
   \<and> infer_unit (bank example_inputs) ''Bun'' = ''kg''"
  by code_simp





section \<open>The usage of a grid row\<close>

lemma typical_daily_get:
  "dict_get (typical_daily act) ing 0 =
     (if usage_series act ing \<noteq> [] then median (usage_series act ing) else 0)"
  by (cases "usage_series act ing")
     (auto simp: dict_get_def typical_daily_def usage_series_def)

lemma grid_rows_usage:
  assumes "r \<in> set (grid_rows inp d ing)"
  shows "d_date r = d \<and> d_ingredient r = ing
     \<and> forecast_usage r \<in> set (forecast_matches (forecast inp) d ing)
     \<and> actual_usage r \<in> set (actual_matches (actual inp) d ing)
     \<and> daily_usage r = fallback_usage (typical_daily (actual inp)) ing (forecast_usage r) (actual_usage r)"
proof -
  from assms obtain fu au where fu: "fu \<in> set (forecast_matches (forecast inp) d ing)"
    and au: "au \<in> set (actual_matches (actual inp) d ing)"
    and r: "r = grid_row inp d ing fu au"
    by (auto simp: grid_rows_def)
  show ?thesis
    unfolding r using fu au by (simp add: grid_row_def)
qed

lemma daily_rows:
  assumes "r \<in> set (daily inp start)"
  shows "d_date r \<in> set (dates start) \<and> d_ingredient r \<in> set (ingredients inp)
     \<and> r \<in> set (grid_rows inp (d_date r) (d_ingredient r))"
proof -
  from assms obtain d ing where d: "d \<in> set (dates start)" and i: "ing \<in> set (ingredients inp)"
    and g: "r \<in> set (grid_rows inp d ing)"
    by (auto simp: daily_def)
  from grid_rows_usage [OF g] have "d_date r = d" "d_ingredient r = ing" by simp_all
  with d i g show ?thesis by simp
qed

lemma example_apple_row: "apple_day10 \<in> set (daily example_inputs 10)"
  by code_simp

lemma example_apple_series: "usage_series (actual example_inputs) ''Apple'' = [3, 5]" "median [3, 5] = 4"
  by code_simp+

text \<open>
  Claim C9. For every row of the daily usage grid, \<open>daily_usage\<close> is the forecast usage
  when it is present, else the actual usage when it is present, else the median of the
  ingredient's actual usage series when that series is not empty, else 0. The forecast
  and actual usage of the row are those of a matching row of the forecast and of the
  actual table, and missing when no row matches.
\<close>

theorem daily_usage_priority:
  assumes "r \<in> set (daily inp start)"
  shows "d_date r \<in> set (dates start)
     \<and> forecast_usage r \<in> set (forecast_matches (forecast inp) (d_date r) (d_ingredient r))
     \<and> actual_usage r \<in> set (actual_matches (actual inp) (d_date r) (d_ingredient r))
     \<and> daily_usage r =
         (case forecast_usage r of
            Some f \<Rightarrow> f
          | None \<Rightarrow>
              (case actual_usage r of
                 Some a \<Rightarrow> a
               | None \<Rightarrow>
                   if usage_series (actual inp) (d_ingredient r) \<noteq> []
                   then median (usage_series (actual inp) (d_ingredient r)) else 0))"
proof -
  from daily_rows [OF assms] have d: "d_date r \<in> set (dates start)"
    and g: "r \<in> set (grid_rows inp (d_date r) (d_ingredient r))" by simp_all
  from grid_rows_usage [OF g] d show ?thesis
    by (simp add: fallback_usage_def typical_daily_get split: option.split)
qed

theorem daily_usage_priority_witness:
  "apple_day10 \<in> set (daily example_inputs 10)
   \<and> forecast_usage apple_day10 = None \<and> actual_usage apple_day10 = None
   \<and> usage_series (actual example_inputs) ''Apple'' = [3, 5]
   \<and> daily_usage apple_day10 = median [3, 5]"
  using example_apple_row example_apple_series daily_usage_priority [OF example_apple_row]
  by (simp add: apple_day10_def)

end
